theory Spec2Isabelle
  imports Main "HOL-Library.AList"
begin

section \<open>Python values and exceptions\<close>

text \<open>
  The repository is Python. Its order tracker (\<^verbatim>\<open>src/exchange/orders.py\<close>) and its
  validation layer (\<^verbatim>\<open>src/utils/validation.py\<close>) work on \<^verbatim>\<open>decimal.Decimal\<close>
  numbers, on strings and on dictionaries of untyped values. A string of the model is a
  list of code points below 256, one \<open>char\<close> each. Binary floats are not part of the
  model.

  A \<^verbatim>\<open>Decimal\<close> is a sign, a coefficient and an exponent, or an infinity, or a
  (quiet or signalling) NaN with a diagnostic number.
\<close>

datatype Decimal =
    Finite bool nat int
  | Infinity bool
  | NaN bool bool nat

datatype pyval = PNone | PBool bool | PInt int | PStr string | PDec Decimal

text \<open>
  \<open>ValidationError\<close> is the exception class of \<^verbatim>\<open>validation.py\<close>; \<open>ValueError\<close>
  carries the message of a \<^verbatim>\<open>raise ValueError(...)\<close> of the repository;
  \<open>LibValueError\<close> is a \<^verbatim>\<open>ValueError\<close> raised by a builtin (\<^verbatim>\<open>int()\<close>, an enum
  lookup), whose message is not modelled. \<open>InvalidOperation\<close> is
  \<^verbatim>\<open>decimal.InvalidOperation\<close>, a subclass of \<^verbatim>\<open>ArithmeticError\<close> and not of
  \<^verbatim>\<open>ValueError\<close>.
\<close>

datatype exn =
    ValidationError string
  | ValueError string
  | LibValueError
  | TypeError
  | InvalidOperation
  | OverflowError

text \<open>The handler \<^verbatim>\<open>except (TypeError, ValueError)\<close>.\<close>

fun caught_TypeError_ValueError :: "exn \<Rightarrow> bool" where
  "caught_TypeError_ValueError TypeError = True"
| "caught_TypeError_ValueError LibValueError = True"
| "caught_TypeError_ValueError (ValueError m) = True"
| "caught_TypeError_ValueError e = False"

subsection \<open>Digits and integers as text\<close>

definition is_digit :: "char \<Rightarrow> bool" where
  "is_digit c = (c \<in> set ''0123456789'')"

definition digit_char :: "nat \<Rightarrow> char" where
  "digit_char n = ''0123456789'' ! n"

definition digit_val :: "char \<Rightarrow> nat" where
  "digit_val c = of_char c - 48"

function str_nat :: "nat \<Rightarrow> string" where
  "str_nat n = (if n < 10 then [digit_char n] else str_nat (n div 10) @ [digit_char (n mod 10)])"
  by pat_completeness auto
termination
  by (relation "measure id") auto

declare str_nat.simps [simp del]

definition nat_of_digits :: "string \<Rightarrow> nat" where
  "nat_of_digits s = foldl (\<lambda>a c. 10 * a + digit_val c) 0 s"

text \<open>\<^verbatim>\<open>str(i)\<close> for an integer, and the format \<^verbatim>\<open>"%+d" % i\<close>.\<close>

definition str_int :: "int \<Rightarrow> string" where
  "str_int i = (if i < 0 then CHR ''-'' # str_nat (nat (- i)) else str_nat (nat i))"

definition fmt_plus_d :: "int \<Rightarrow> string" where
  "fmt_plus_d i = (if i < 0 then CHR ''-'' # str_nat (nat (- i)) else CHR ''+'' # str_nat (nat i))"

text \<open>
  \<^verbatim>\<open>str.strip()\<close> removes the characters for which \<^verbatim>\<open>str.isspace()\<close> holds; below
  256 these are 9 to 13, 28 to 32, 133 and 160.
\<close>

definition is_space :: "char \<Rightarrow> bool" where
  "is_space c = ((of_char c :: nat) \<in> set [9, 10, 11, 12, 13, 28, 29, 30, 31, 32, 133, 160])"

definition strip :: "string \<Rightarrow> string" where
  "strip s = rev (dropWhile is_space (rev (dropWhile is_space s)))"

definition to_lower :: "char \<Rightarrow> char" where
  "to_lower c = (if 65 \<le> (of_char c :: nat) \<and> (of_char c :: nat) \<le> 90
                 then char_of ((of_char c :: nat) + 32) else c)"

text \<open>An optional sign \<^verbatim>\<open>[-+]?\<close>: whether it is a minus, and the rest of the text.\<close>

definition parse_sign :: "string \<Rightarrow> bool \<times> string" where
  "parse_sign s =
     (case s of
        [] \<Rightarrow> (False, s)
      | c # r \<Rightarrow> if c = CHR ''-'' then (True, r)
                 else if c = CHR ''+'' then (False, r)
                 else (False, s))"

subsection \<open>\<^verbatim>\<open>Decimal(str)\<close>\<close>

text \<open>
  The constructor strips white space, drops underscores and matches the rest against
  \<^verbatim>\<open>[-+]? ( (?=\d|\.\d) \d* (\.\d*)? (E[-+]?\d+)? | Inf(inity)? | s? NaN \d* ) \Z\<close>,
  ignoring case. A text that does not match raises \<^verbatim>\<open>decimal.InvalidOperation\<close>.
  The number alternative, after the sign: integer part, fraction part, exponent.
\<close>

definition parse_number :: "string \<Rightarrow> (string \<times> string \<times> int) option" where
  "parse_number s =
     (let ip = takeWhile is_digit s;
          r1 = dropWhile is_digit s;
          (fp, r2) = (case r1 of
                        [] \<Rightarrow> ([], r1)
                      | c # t \<Rightarrow> if c = CHR ''.''
                                 then (takeWhile is_digit t, dropWhile is_digit t)
                                 else ([], r1))
      in if ip = [] \<and> fp = [] then None
         else (case r2 of
                 [] \<Rightarrow> Some (ip, fp, 0)
               | c # t \<Rightarrow>
                   if to_lower c = CHR ''e'' then
                     (case parse_sign t of
                        (neg, ds) \<Rightarrow>
                          if ds \<noteq> [] \<and> list_all is_digit ds
                          then Some (ip, fp, if neg then - int (nat_of_digits ds)
                                             else int (nat_of_digits ds))
                          else None)
                   else None))"

definition parse_special :: "bool \<Rightarrow> string \<Rightarrow> Decimal option" where
  "parse_special neg s =
     (let l = map to_lower s in
      if l = ''inf'' \<or> l = ''infinity'' then Some (Infinity neg)
      else (let (sig, r) = (case l of
                              [] \<Rightarrow> (False, l)
                            | c # t \<Rightarrow> if c = CHR ''s'' then (True, t) else (False, l))
            in if take 3 r = ''nan'' \<and> list_all is_digit (drop 3 r)
               then Some (NaN neg sig (nat_of_digits (drop 3 r)))
               else None))"

definition Decimal_new :: "string \<Rightarrow> exn + Decimal" where
  "Decimal_new value =
     (let (neg, r) = parse_sign (filter (\<lambda>c. c \<noteq> CHR ''_'') (strip value)) in
      case parse_number r of
        Some (ip, fp, e) \<Rightarrow> Inr (Finite neg (nat_of_digits (ip @ fp)) (e - int (length fp)))
      | None \<Rightarrow> (case parse_special neg r of
                   Some d \<Rightarrow> Inr d
                 | None \<Rightarrow> Inl InvalidOperation))"

subsection \<open>\<^verbatim>\<open>str(Decimal)\<close>\<close>

definition sign_str :: "bool \<Rightarrow> string" where
  "sign_str sg = (if sg then ''-'' else [])"

definition str_Decimal :: "Decimal \<Rightarrow> string" where
  "str_Decimal d =
     (case d of
        Infinity sg \<Rightarrow> sign_str sg @ ''Infinity''
      | NaN sg sig n \<Rightarrow>
          sign_str sg @ (if sig then ''sNaN'' else ''NaN'') @ (if n = 0 then [] else str_nat n)
      | Finite sg c e \<Rightarrow>
          (let ds = str_nat c;
               leftdigits = e + int (length ds);
               dotplace = (if e \<le> 0 \<and> leftdigits > - 6 then leftdigits else 1);
               (intpart, fracpart) =
                 (if dotplace \<le> 0
                  then (''0'', CHR ''.'' # replicate (nat (- dotplace)) (CHR ''0'') @ ds)
                  else if dotplace \<ge> int (length ds)
                  then (ds @ replicate (nat (dotplace - int (length ds))) (CHR ''0''), [])
                  else (take (nat dotplace) ds, CHR ''.'' # drop (nat dotplace) ds));
               exp = (if leftdigits = dotplace then []
                      else CHR ''E'' # fmt_plus_d (leftdigits - dotplace))
           in sign_str sg @ intpart @ fracpart @ exp))"

subsection \<open>Truth value and comparison of a \<^verbatim>\<open>Decimal\<close>\<close>

text \<open>\<^verbatim>\<open>Decimal.__bool__\<close>: a special value is true, a finite one is true unless its
  coefficient is zero.\<close>

fun Decimal_bool :: "Decimal \<Rightarrow> bool" where
  "Decimal_bool (Finite sg c e) = (c \<noteq> 0)"
| "Decimal_bool d = True"

fun is_nan :: "Decimal \<Rightarrow> bool" where
  "is_nan (NaN sg sig n) = True"
| "is_nan d = False"

fun isinfinity :: "Decimal \<Rightarrow> int" where
  "isinfinity (Infinity sg) = (if sg then - 1 else 1)"
| "isinfinity d = 0"

definition sgn3 :: "int \<Rightarrow> int \<Rightarrow> int" where
  "sgn3 a b = (if a < b then - 1 else if a = b then 0 else 1)"

text \<open>\<^verbatim>\<open>Decimal._cmp\<close> on two values that are not NaN: minus one, zero or one, by the
  numbers the two values denote.\<close>

fun cmp :: "Decimal \<Rightarrow> Decimal \<Rightarrow> int" where
  "cmp (Finite s1 c1 e1) (Finite s2 c2 e2) =
     (let m = min e1 e2 in
      sgn3 ((if s1 then - int c1 else int c1) * 10 ^ nat (e1 - m))
           ((if s2 then - int c2 else int c2) * 10 ^ nat (e2 - m)))"
| "cmp a b = sgn3 (isinfinity a) (isinfinity b)"

text \<open>The comparisons \<^verbatim>\<open><\<close>, \<^verbatim>\<open><=\<close> and \<^verbatim>\<open>>\<close> signal \<^verbatim>\<open>InvalidOperation\<close> on a NaN.\<close>

definition Decimal_lt :: "Decimal \<Rightarrow> Decimal \<Rightarrow> exn + bool" where
  "Decimal_lt a b = (if is_nan a \<or> is_nan b then Inl InvalidOperation else Inr (cmp a b < 0))"

definition Decimal_le :: "Decimal \<Rightarrow> Decimal \<Rightarrow> exn + bool" where
  "Decimal_le a b = (if is_nan a \<or> is_nan b then Inl InvalidOperation else Inr (cmp a b \<le> 0))"

definition Decimal_gt :: "Decimal \<Rightarrow> Decimal \<Rightarrow> exn + bool" where
  "Decimal_gt a b = (if is_nan a \<or> is_nan b then Inl InvalidOperation else Inr (cmp a b > 0))"

definition Decimal_of_int :: "int \<Rightarrow> Decimal" where
  "Decimal_of_int i = Finite (i < 0) (nat \<bar>i\<bar>) 0"

subsection \<open>Builtins on untyped values\<close>

text \<open>\<^verbatim>\<open>str(v)\<close>, the truth value of \<^verbatim>\<open>v\<close>, and \<^verbatim>\<open>int(v)\<close>.\<close>

fun py_str :: "pyval \<Rightarrow> string" where
  "py_str PNone = ''None''"
| "py_str (PBool b) = (if b then ''True'' else ''False'')"
| "py_str (PInt i) = str_int i"
| "py_str (PStr s) = s"
| "py_str (PDec d) = str_Decimal d"

fun truthy :: "pyval \<Rightarrow> bool" where
  "truthy PNone = False"
| "truthy (PBool b) = b"
| "truthy (PInt i) = (i \<noteq> 0)"
| "truthy (PStr s) = (s \<noteq> [])"
| "truthy (PDec d) = Decimal_bool d"

text \<open>A base 10 integer literal: digits, with single underscores between digits.\<close>

fun no_double_underscore :: "string \<Rightarrow> bool" where
  "no_double_underscore (a # b # r) =
     (\<not> (a = CHR ''_'' \<and> b = CHR ''_'') \<and> no_double_underscore (b # r))"
| "no_double_underscore s = True"

definition int_of_str :: "string \<Rightarrow> exn + int" where
  "int_of_str s =
     (let (neg, body) = parse_sign (strip s) in
      if body \<noteq> [] \<and> is_digit (hd body) \<and> is_digit (last body)
         \<and> list_all (\<lambda>c. is_digit c \<or> c = CHR ''_'') body \<and> no_double_underscore body
      then (let n = int (nat_of_digits (filter (\<lambda>c. c \<noteq> CHR ''_'') body))
            in Inr (if neg then - n else n))
      else Inl LibValueError)"

fun py_int :: "pyval \<Rightarrow> exn + int" where
  "py_int PNone = Inl TypeError"
| "py_int (PBool b) = Inr (if b then 1 else 0)"
| "py_int (PInt i) = Inr i"
| "py_int (PStr s) = int_of_str s"
| "py_int (PDec (NaN sg sig n)) = Inl LibValueError"
| "py_int (PDec (Infinity sg)) = Inl OverflowError"
| "py_int (PDec (Finite sg c e)) =
     (let m = (if e \<ge> 0 then int c * 10 ^ nat e else int (c div 10 ^ nat (- e)))
      in Inr (if sg then - m else m))"

text \<open>A \<^verbatim>\<open>Decimal\<close> compares with another \<^verbatim>\<open>Decimal\<close> and with an integer (a
  \<^verbatim>\<open>bool\<close> is an integer); with a string or \<^verbatim>\<open>None\<close> the comparison raises
  \<^verbatim>\<open>TypeError\<close>.\<close>

fun convert_for_comparison :: "pyval \<Rightarrow> Decimal option" where
  "convert_for_comparison (PDec d) = Some d"
| "convert_for_comparison (PInt i) = Some (Decimal_of_int i)"
| "convert_for_comparison (PBool b) = Some (Decimal_of_int (if b then 1 else 0))"
| "convert_for_comparison v = None"

definition dec_lt_val :: "Decimal \<Rightarrow> pyval \<Rightarrow> exn + bool" where
  "dec_lt_val a v = (case convert_for_comparison v of
                       None \<Rightarrow> Inl TypeError | Some b \<Rightarrow> Decimal_lt a b)"

definition dec_gt_val :: "Decimal \<Rightarrow> pyval \<Rightarrow> exn + bool" where
  "dec_gt_val a v = (case convert_for_comparison v of
                       None \<Rightarrow> Inl TypeError | Some b \<Rightarrow> Decimal_gt a b)"

text \<open>\<^verbatim>\<open>i > v\<close> for an integer \<^verbatim>\<open>i\<close>: with a \<^verbatim>\<open>Decimal\<close> on the right the reflected
  comparison of the \<^verbatim>\<open>Decimal\<close> decides.\<close>

fun int_gt_val :: "int \<Rightarrow> pyval \<Rightarrow> exn + bool" where
  "int_gt_val i (PInt j) = Inr (i > j)"
| "int_gt_val i (PBool b) = Inr (i > (if b then 1 else 0))"
| "int_gt_val i (PDec d) = Decimal_lt d (Decimal_of_int i)"
| "int_gt_val i v = Inl TypeError"

section \<open>Regular expressions: \<^verbatim>\<open>re.match\<close>\<close>

text \<open>
  The two patterns of \<^verbatim>\<open>validation.py\<close> use literal characters, character classes,
  \<^verbatim>\<open>+\<close>, a counted repetition \<^verbatim>\<open>{m,n}\<close> and the anchors \<^verbatim>\<open>^\<close> and \<^verbatim>\<open>$\<close>. A pattern
  is a value of \<open>regex\<close>; a class is a list of inclusive character ranges. Matching is by
  derivatives.
\<close>

datatype regex =
    Zero
  | One
  | Chr char
  | Class "(char \<times> char) list"
  | Alt regex regex
  | Seq regex regex
  | Star regex
  | Plus regex
  | Rep regex nat nat

definition in_class :: "(char \<times> char) list \<Rightarrow> char \<Rightarrow> bool" where
  "in_class rs c =
     list_ex (\<lambda>(lo, hi). (of_char lo :: nat) \<le> of_char c \<and> (of_char c :: nat) \<le> of_char hi) rs"

fun nullable :: "regex \<Rightarrow> bool" where
  "nullable Zero = False"
| "nullable One = True"
| "nullable (Chr c) = False"
| "nullable (Class rs) = False"
| "nullable (Alt r s) = (nullable r \<or> nullable s)"
| "nullable (Seq r s) = (nullable r \<and> nullable s)"
| "nullable (Star r) = True"
| "nullable (Plus r) = nullable r"
| "nullable (Rep r lo hi) = (lo = 0 \<or> nullable r)"

fun deriv :: "char \<Rightarrow> regex \<Rightarrow> regex" where
  "deriv c Zero = Zero"
| "deriv c One = Zero"
| "deriv c (Chr d) = (if c = d then One else Zero)"
| "deriv c (Class rs) = (if in_class rs c then One else Zero)"
| "deriv c (Alt r s) = Alt (deriv c r) (deriv c s)"
| "deriv c (Seq r s) =
     (if nullable r then Alt (Seq (deriv c r) s) (deriv c s) else Seq (deriv c r) s)"
| "deriv c (Star r) = Seq (deriv c r) (Star r)"
| "deriv c (Plus r) = Seq (deriv c r) (Star r)"
| "deriv c (Rep r lo hi) =
     (if hi = 0 then Zero else Seq (deriv c r) (Rep r (lo - 1) (hi - 1)))"

definition matches :: "regex \<Rightarrow> string \<Rightarrow> bool" where
  "matches r s = nullable (foldl (\<lambda>q c. deriv c q) r s)"

text \<open>
  \<^verbatim>\<open>re.match('^' + r + '$', s)\<close> without flags: \<^verbatim>\<open>^\<close> is the start of the text, and
  \<^verbatim>\<open>$\<close> is the end of the text or the place just before a line feed that ends the text.
\<close>

definition re_match_anchored :: "regex \<Rightarrow> string \<Rightarrow> bool" where
  "re_match_anchored r s =
     (matches r s \<or> (s \<noteq> [] \<and> last s = CHR 0x0A \<and> matches r (butlast s)))"

section \<open>The validation layer (\<^verbatim>\<open>src/utils/validation.py\<close>)\<close>

text \<open>\<^verbatim>\<open>r'^[A-Z0-9]+-[A-Z0-9]+$'\<close> and \<^verbatim>\<open>r'^[a-zA-Z0-9_-]{1,36}$'\<close>, between the anchors.\<close>

definition symbol_pattern :: regex where
  "symbol_pattern =
     Seq (Plus (Class [(CHR ''A'', CHR ''Z''), (CHR ''0'', CHR ''9'')]))
         (Seq (Chr (CHR ''-''))
              (Plus (Class [(CHR ''A'', CHR ''Z''), (CHR ''0'', CHR ''9'')])))"

definition client_order_id_pattern :: regex where
  "client_order_id_pattern =
     Rep (Class [(CHR ''a'', CHR ''z''), (CHR ''A'', CHR ''Z''), (CHR ''0'', CHR ''9''),
                 (CHR ''_'', CHR ''_''), (CHR ''-'', CHR ''-'')]) 1 36"

definition validate_symbol :: "pyval \<Rightarrow> exn + string" where
  "validate_symbol symb =
     (case symb of
        PStr s \<Rightarrow>
          if \<not> re_match_anchored symbol_pattern s
          then Inl (ValidationError
                 ''Invalid symbol format. Expected format: XXX-XXX (e.g., BTC-USDT)'')
          else Inr s
      | _ \<Rightarrow> Inl (ValidationError ''Symbol must be a string''))"

definition validate_quantity :: "pyval \<Rightarrow> pyval \<Rightarrow> pyval \<Rightarrow> exn + Decimal" where
  "validate_quantity qty min_quantity max_quantity =
     (case Decimal_new (py_str qty) of
        Inl e \<Rightarrow> if caught_TypeError_ValueError e
                 then Inl (ValidationError ''Invalid quantity format'') else Inl e
      | Inr quantity_decimal \<Rightarrow>
          (case Decimal_le quantity_decimal (Finite False 0 0) of
             Inl e \<Rightarrow> Inl e
           | Inr True \<Rightarrow> Inl (ValidationError ''Quantity must be greater than 0'')
           | Inr False \<Rightarrow>
               (case (if truthy min_quantity then dec_lt_val quantity_decimal min_quantity
                      else Inr False) of
                  Inl e \<Rightarrow> Inl e
                | Inr True \<Rightarrow>
                    Inl (ValidationError (''Quantity must be at least '' @ py_str min_quantity))
                | Inr False \<Rightarrow>
                    (case (if truthy max_quantity then dec_gt_val quantity_decimal max_quantity
                           else Inr False) of
                       Inl e \<Rightarrow> Inl e
                     | Inr True \<Rightarrow>
                         Inl (ValidationError
                                (''Quantity must not exceed '' @ py_str max_quantity))
                     | Inr False \<Rightarrow> Inr quantity_decimal))))"

definition validate_price :: "pyval \<Rightarrow> pyval \<Rightarrow> pyval \<Rightarrow> exn + Decimal" where
  "validate_price prc min_price max_price =
     (case Decimal_new (py_str prc) of
        Inl e \<Rightarrow> if caught_TypeError_ValueError e
                 then Inl (ValidationError ''Invalid price format'') else Inl e
      | Inr price_decimal \<Rightarrow>
          (case Decimal_le price_decimal (Finite False 0 0) of
             Inl e \<Rightarrow> Inl e
           | Inr True \<Rightarrow> Inl (ValidationError ''Price must be greater than 0'')
           | Inr False \<Rightarrow>
               (case (if truthy min_price then dec_lt_val price_decimal min_price
                      else Inr False) of
                  Inl e \<Rightarrow> Inl e
                | Inr True \<Rightarrow>
                    Inl (ValidationError (''Price must be at least '' @ py_str min_price))
                | Inr False \<Rightarrow>
                    (case (if truthy max_price then dec_gt_val price_decimal max_price
                           else Inr False) of
                       Inl e \<Rightarrow> Inl e
                     | Inr True \<Rightarrow>
                         Inl (ValidationError (''Price must not exceed '' @ py_str max_price))
                     | Inr False \<Rightarrow> Inr price_decimal))))"

definition validate_leverage :: "pyval \<Rightarrow> pyval \<Rightarrow> exn + int" where
  "validate_leverage lev max_leverage =
     (case py_int lev of
        Inl e \<Rightarrow> if caught_TypeError_ValueError e
                 then Inl (ValidationError ''Invalid leverage format'') else Inl e
      | Inr leverage_int \<Rightarrow>
          if leverage_int < 1 then Inl (ValidationError ''Leverage must be at least 1'')
          else (case int_gt_val leverage_int max_leverage of
                  Inl e \<Rightarrow> Inl e
                | Inr True \<Rightarrow>
                    Inl (ValidationError (''Leverage must not exceed '' @ py_str max_leverage))
                | Inr False \<Rightarrow> Inr leverage_int))"

definition validate_client_order_id :: "pyval \<Rightarrow> exn + string" where
  "validate_client_order_id cid =
     (case cid of
        PStr s \<Rightarrow>
          if \<not> re_match_anchored client_order_id_pattern s
          then Inl (ValidationError
                 (''Invalid client order ID format. Must be 1-36 characters long ''
                  @ ''and contain only letters, numbers, underscore, and hyphen.''))
          else Inr s
      | _ \<Rightarrow> Inl (ValidationError ''Client order ID must be a string''))"

subsection \<open>Dictionaries\<close>

text \<open>
  A \<^verbatim>\<open>dict\<close> with string keys is an association list in insertion order:
  \<^verbatim>\<open>k in d\<close>, \<^verbatim>\<open>d.get(k)\<close>, \<^verbatim>\<open>d.get(k, default)\<close>, \<^verbatim>\<open>d[k] = v\<close> and
  \<^verbatim>\<open>d.pop(k, None)\<close>.
\<close>

type_synonym 'v dict = "(string \<times> 'v) list"

definition dict_in :: "string \<Rightarrow> 'v dict \<Rightarrow> bool" where
  "dict_in k d = (map_of d k \<noteq> None)"

definition dict_get :: "pyval dict \<Rightarrow> string \<Rightarrow> pyval" where
  "dict_get d k = (case map_of d k of None \<Rightarrow> PNone | Some v \<Rightarrow> v)"

definition dict_get_default :: "pyval dict \<Rightarrow> string \<Rightarrow> pyval \<Rightarrow> pyval" where
  "dict_get_default d k dflt = (case map_of d k of None \<Rightarrow> dflt | Some v \<Rightarrow> v)"

definition dict_set :: "string \<Rightarrow> 'v \<Rightarrow> 'v dict \<Rightarrow> 'v dict" where
  "dict_set k v d = AList.update k v d"

definition dict_pop :: "string \<Rightarrow> 'v dict \<Rightarrow> 'v dict" where
  "dict_pop k d = AList.delete k d"

subsection \<open>\<^verbatim>\<open>validate_order_params\<close>\<close>

text \<open>The loop over the required names: the first one missing raises.\<close>

fun check_required :: "string list \<Rightarrow> pyval dict \<Rightarrow> exn option" where
  "check_required [] ps = None"
| "check_required (param # rest) ps =
     (if \<not> dict_in param ps
      then Some (ValidationError (''Missing required parameter: '' @ param))
      else check_required rest ps)"

text \<open>The loop over the optional names: each one present is copied.\<close>

fun copy_optional :: "string list \<Rightarrow> pyval dict \<Rightarrow> pyval dict \<Rightarrow> pyval dict" where
  "copy_optional [] ps validated = validated"
| "copy_optional (param # rest) ps validated =
     copy_optional rest ps
       (if dict_in param ps then dict_set param (dict_get ps param) validated else validated)"

definition invalid_side_message :: string where
  "invalid_side_message =
     ''Invalid side. Must be '' @ [CHR 0x27] @ ''BUY'' @ [CHR 0x27] @ '' or ''
       @ [CHR 0x27] @ ''SELL'' @ [CHR 0x27]"

definition validate_order_params :: "pyval dict \<Rightarrow> exn + pyval dict" where
  "validate_order_params ps =
     (case check_required [''symbol'', ''quantity'', ''side''] ps of
        Some e \<Rightarrow> Inl e
      | None \<Rightarrow>
     (case validate_symbol (dict_get ps ''symbol'') of
        Inl e \<Rightarrow> Inl e
      | Inr symb \<Rightarrow>
     (let v1 = dict_set ''symbol'' (PStr symb) [] in
      case validate_quantity (dict_get ps ''quantity'')
             (dict_get ps ''min_quantity'') (dict_get ps ''max_quantity'') of
        Inl e \<Rightarrow> Inl e
      | Inr q \<Rightarrow>
     (let v2 = dict_set ''quantity'' (PDec q) v1 in
      if dict_get ps ''side'' \<noteq> PStr ''BUY'' \<and> dict_get ps ''side'' \<noteq> PStr ''SELL''
      then Inl (ValidationError invalid_side_message)
      else
     (let v3 = dict_set ''side'' (dict_get ps ''side'') v2 in
      case (if dict_in ''price'' ps
            then (case validate_price (dict_get ps ''price'')
                         (dict_get ps ''min_price'') (dict_get ps ''max_price'') of
                    Inl e \<Rightarrow> Inl e
                  | Inr p \<Rightarrow> Inr (dict_set ''price'' (PDec p) v3))
            else Inr v3) of
        Inl e \<Rightarrow> Inl e
      | Inr v4 \<Rightarrow>
     (case (if dict_in ''leverage'' ps
            then (case validate_leverage (dict_get ps ''leverage'')
                         (dict_get_default ps ''max_leverage'' (PInt 100)) of
                    Inl e \<Rightarrow> Inl e
                  | Inr l \<Rightarrow> Inr (dict_set ''leverage'' (PInt l) v4))
            else Inr v4) of
        Inl e \<Rightarrow> Inl e
      | Inr v5 \<Rightarrow>
          Inr (copy_optional [''client_order_id'', ''time_in_force'', ''reduce_only''] ps v5)))))))"

section \<open>The order tracker (\<^verbatim>\<open>src/exchange/orders.py\<close>)\<close>

datatype OrderType = MARKET | LIMIT | STOP_LOSS | TAKE_PROFIT

datatype OrderSide = BUY | SELL

datatype OrderStatus = PENDING | OPEN | FILLED | CANCELLED | REJECTED | EXPIRED

fun OrderType_value :: "OrderType \<Rightarrow> string" where
  "OrderType_value MARKET = ''MARKET''"
| "OrderType_value LIMIT = ''LIMIT''"
| "OrderType_value STOP_LOSS = ''STOP_LOSS''"
| "OrderType_value TAKE_PROFIT = ''TAKE_PROFIT''"

fun OrderSide_value :: "OrderSide \<Rightarrow> string" where
  "OrderSide_value BUY = ''BUY''"
| "OrderSide_value SELL = ''SELL''"

text \<open>\<^verbatim>\<open>OrderStatus(v)\<close>: the member whose value is \<^verbatim>\<open>v\<close>, or a \<^verbatim>\<open>ValueError\<close>.\<close>

definition OrderStatus_call :: "pyval \<Rightarrow> exn + OrderStatus" where
  "OrderStatus_call v =
     (if v = PStr ''PENDING'' then Inr PENDING
      else if v = PStr ''OPEN'' then Inr OPEN
      else if v = PStr ''FILLED'' then Inr FILLED
      else if v = PStr ''CANCELLED'' then Inr CANCELLED
      else if v = PStr ''REJECTED'' then Inr REJECTED
      else if v = PStr ''EXPIRED'' then Inr EXPIRED
      else Inl LibValueError)"

record OrderParams =
  symbol :: string
  side :: OrderSide
  order_type :: OrderType
  quantity :: Decimal
  price :: "Decimal option"
  stop_price :: "Decimal option"
  take_profit_price :: "Decimal option"
  leverage :: "int option"
  time_in_force :: string
  reduce_only :: bool
  client_order_id :: "string option"

record Order =
  params :: OrderParams
  status :: OrderStatus
  exchange_order_id :: pyval
  filled_quantity :: Decimal
  average_fill_price :: "Decimal option"
  last_update_timestamp :: pyval
  error_message :: pyval

text \<open>The truth value of an optional string and of an optional \<^verbatim>\<open>Decimal\<close>.\<close>

fun truthy_str :: "string option \<Rightarrow> bool" where
  "truthy_str None = False"
| "truthy_str (Some s) = (s \<noteq> [])"

fun truthy_dec :: "Decimal option \<Rightarrow> bool" where
  "truthy_dec None = False"
| "truthy_dec (Some d) = Decimal_bool d"

subsection \<open>\<^verbatim>\<open>Order.to_dict\<close>\<close>

definition to_dict :: "Order \<Rightarrow> exn + pyval dict" where
  "to_dict self =
     (let p = params self;
          base_dict =
            [(''symbol'', PStr (symbol p)),
             (''side'', PStr (OrderSide_value (side p))),
             (''orderType'', PStr (OrderType_value (order_type p))),
             (''quantity'', PStr (str_Decimal (quantity p))),
             (''leverage'', (case leverage p of None \<Rightarrow> PNone | Some l \<Rightarrow> PInt l)),
             (''timeInForce'', PStr (time_in_force p)),
             (''reduceOnly'', PBool (reduce_only p))];
          base_dict1 =
            (if truthy_str (client_order_id p)
             then dict_set ''clientOrderId'' (PStr (the (client_order_id p))) base_dict
             else base_dict)
      in if order_type p = LIMIT then
           (if \<not> truthy_dec (price p)
            then Inl (ValueError ''Price is required for LIMIT orders'')
            else Inr (dict_set ''price'' (PStr (str_Decimal (the (price p)))) base_dict1))
         else if order_type p = STOP_LOSS then
           (if \<not> truthy_dec (stop_price p)
            then Inl (ValueError ''Stop price is required for STOP_LOSS orders'')
            else Inr (dict_set ''stopPrice'' (PStr (str_Decimal (the (stop_price p))))
                        base_dict1))
         else if order_type p = TAKE_PROFIT then
           (if \<not> truthy_dec (take_profit_price p)
            then Inl (ValueError ''Take profit price is required for TAKE_PROFIT orders'')
            else Inr (dict_set ''takeProfitPrice''
                        (PStr (str_Decimal (the (take_profit_price p)))) base_dict1))
         else Inr base_dict1)"

subsection \<open>Objects and references\<close>

text \<open>
  An \<^verbatim>\<open>Order\<close> is a mutable object, and the registry is a \<^verbatim>\<open>dict\<close> object whose
  values are references to orders. The heap holds the order objects and the dictionary
  objects; a reference is an index, and a new object is put at the end. A call that
  raises returns the exception together with the heap as the call left it.
\<close>

type_synonym ref = nat

record heap =
  order_objs :: "Order list"
  dict_objs :: "ref dict list"

record OrderManager =
  active_orders :: ref

definition empty_heap :: heap where
  "empty_heap = \<lparr>order_objs = [], dict_objs = []\<rparr>"

definition Order_new :: "OrderParams \<Rightarrow> heap \<Rightarrow> ref \<times> heap" where
  "Order_new p h =
     (length (order_objs h),
      h\<lparr>order_objs := order_objs h @
           [\<lparr>params = p, status = PENDING, exchange_order_id = PNone,
             filled_quantity = Finite False 0 0, average_fill_price = None,
             last_update_timestamp = PNone, error_message = PNone\<rparr>]\<rparr>)"

definition dict_new :: "ref dict \<Rightarrow> heap \<Rightarrow> ref \<times> heap" where
  "dict_new d h = (length (dict_objs h), h\<lparr>dict_objs := dict_objs h @ [d]\<rparr>)"

definition dict_setitem :: "ref \<Rightarrow> string \<Rightarrow> ref \<Rightarrow> heap \<Rightarrow> heap" where
  "dict_setitem d k v h = h\<lparr>dict_objs := (dict_objs h)[d := dict_set k v (dict_objs h ! d)]\<rparr>"

definition dict_popitem :: "ref \<Rightarrow> string \<Rightarrow> heap \<Rightarrow> heap" where
  "dict_popitem d k h = h\<lparr>dict_objs := (dict_objs h)[d := dict_pop k (dict_objs h ! d)]\<rparr>"

definition order_update :: "ref \<Rightarrow> (Order \<Rightarrow> Order) \<Rightarrow> heap \<Rightarrow> heap" where
  "order_update r f h = h\<lparr>order_objs := (order_objs h)[r := f (order_objs h ! r)]\<rparr>"

subsection \<open>\<^verbatim>\<open>Order.update_from_exchange\<close>\<close>

definition update_from_exchange :: "ref \<Rightarrow> pyval dict \<Rightarrow> heap \<Rightarrow> exn option \<times> heap" where
  "update_from_exchange self exchange_data h =
     (let h1 = order_update self (\<lambda>ord. ord\<lparr>exchange_order_id :=
                  dict_get exchange_data ''orderId''\<rparr>) h in
      case OrderStatus_call (dict_get_default exchange_data ''status'' (PStr ''PENDING'')) of
        Inl e \<Rightarrow> (Some e, h1)
      | Inr st \<Rightarrow>
     (let h2 = order_update self (\<lambda>ord. ord\<lparr>status := st\<rparr>) h1 in
      case (if dict_in ''fillQuantity'' exchange_data
            then (case Decimal_new (py_str (dict_get exchange_data ''fillQuantity'')) of
                    Inl e \<Rightarrow> Inl e
                  | Inr q \<Rightarrow> Inr (order_update self (\<lambda>ord. ord\<lparr>filled_quantity := q\<rparr>) h2))
            else Inr h2) of
        Inl e \<Rightarrow> (Some e, h2)
      | Inr h3 \<Rightarrow>
     (case (if dict_in ''averagePrice'' exchange_data
            then (case Decimal_new (py_str (dict_get exchange_data ''averagePrice'')) of
                    Inl e \<Rightarrow> Inl e
                  | Inr a \<Rightarrow>
                      Inr (order_update self (\<lambda>ord. ord\<lparr>average_fill_price := Some a\<rparr>) h3))
            else Inr h3) of
        Inl e \<Rightarrow> (Some e, h3)
      | Inr h4 \<Rightarrow>
          (None,
           order_update self (\<lambda>ord. ord\<lparr>error_message := dict_get exchange_data ''error''\<rparr>)
             (order_update self (\<lambda>ord. ord\<lparr>last_update_timestamp :=
                  dict_get exchange_data ''timestamp''\<rparr>) h4)))))"

subsection \<open>\<^verbatim>\<open>OrderManager\<close>\<close>

definition OrderManager_init :: "heap \<Rightarrow> OrderManager \<times> heap" where
  "OrderManager_init h = (case dict_new [] h of (d, h1) \<Rightarrow> (\<lparr>active_orders = d\<rparr>, h1))"

definition create_order :: "OrderManager \<Rightarrow> OrderParams \<Rightarrow> heap \<Rightarrow> ref \<times> heap" where
  "create_order self p h =
     (case Order_new p h of
        (ord, h1) \<Rightarrow>
          if truthy_str (client_order_id p)
          then (ord, dict_setitem (active_orders self) (the (client_order_id p)) ord h1)
          else (ord, h1))"

definition get_order :: "OrderManager \<Rightarrow> string \<Rightarrow> heap \<Rightarrow> ref option" where
  "get_order self cid h = map_of (dict_objs h ! active_orders self) cid"

definition is_terminal :: "OrderStatus \<Rightarrow> bool" where
  "is_terminal st = (st \<in> set [FILLED, CANCELLED, REJECTED, EXPIRED])"

definition update_order :: "OrderManager \<Rightarrow> string \<Rightarrow> pyval dict \<Rightarrow> heap \<Rightarrow> exn option \<times> heap" where
  "update_order self cid exchange_data h =
     (case map_of (dict_objs h ! active_orders self) cid of
        None \<Rightarrow> (None, h)
      | Some ord \<Rightarrow>
          (case update_from_exchange ord exchange_data h of
             (Some e, h1) \<Rightarrow> (Some e, h1)
           | (None, h1) \<Rightarrow>
               if is_terminal (status (order_objs h1 ! ord))
               then (None, dict_popitem (active_orders self) cid h1)
               else (None, h1)))"

definition cancel_order :: "OrderManager \<Rightarrow> string \<Rightarrow> heap \<Rightarrow> heap" where
  "cancel_order self cid h =
     (case map_of (dict_objs h ! active_orders self) cid of
        None \<Rightarrow> h
      | Some ord \<Rightarrow>
          dict_popitem (active_orders self) cid
            (order_update ord (\<lambda>x. x\<lparr>status := CANCELLED\<rparr>) h))"

definition get_active_orders :: "OrderManager \<Rightarrow> heap \<Rightarrow> ref \<times> heap" where
  "get_active_orders self h = dict_new (dict_objs h ! active_orders self) h"

subsection \<open>Sequences of tracker calls\<close>

text \<open>
  A caller drives one tracker by \<^verbatim>\<open>create_order\<close>, \<^verbatim>\<open>update_order\<close> and
  \<^verbatim>\<open>cancel_order\<close>. A call that raises leaves the heap as it was at the raise, and the
  caller goes on from there.
\<close>

datatype tracker_call =
    Create OrderParams
  | Update string "pyval dict"
  | Cancel string

fun run_call :: "OrderManager \<Rightarrow> heap \<Rightarrow> tracker_call \<Rightarrow> heap" where
  "run_call m h (Create p) = snd (create_order m p h)"
| "run_call m h (Update cid exchange_data) = snd (update_order m cid exchange_data h)"
| "run_call m h (Cancel cid) = cancel_order m cid h"

definition run_calls :: "OrderManager \<Rightarrow> tracker_call list \<Rightarrow> heap \<Rightarrow> heap" where
  "run_calls m calls h = foldl (run_call m) h calls"

text \<open>The tracker made by \<^verbatim>\<open>OrderManager()\<close> on the empty heap, and its heap.\<close>

definition new_tracker :: OrderManager where
  "new_tracker = fst (OrderManager_init empty_heap)"

definition new_tracker_heap :: heap where
  "new_tracker_heap = snd (OrderManager_init empty_heap)"

text \<open>A limit order to buy 1.5 BTC-USDT at 49500, with the client order id abc123.\<close>

definition example_params :: OrderParams where
  "example_params =
     \<lparr>symbol = ''BTC-USDT'', side = BUY, order_type = LIMIT,
      quantity = Finite False 15 (- 1), price = Some (Finite False 49500 0),
      stop_price = None, take_profit_price = None, leverage = Some 1,
      time_in_force = ''GTC'', reduce_only = False, client_order_id = Some ''abc123''\<rparr>"

text \<open>The order that \<^verbatim>\<open>Order(params=example_params)\<close> constructs.\<close>

definition example_order :: Order where
  "example_order =
     \<lparr>params = example_params, status = PENDING, exchange_order_id = PNone,
      filled_quantity = Finite False 0 0, average_fill_price = None,
      last_update_timestamp = PNone, error_message = PNone\<rparr>"

subsection \<open>The symbol format in the words of the specification\<close>

text \<open>
  The specification describes a valid symbol as two non-empty segments of upper-case
  letters and digits, separated by a single hyphen, and nothing else.
\<close>

definition is_upper_alnum :: "char \<Rightarrow> bool" where
  "is_upper_alnum c = (c \<in> set ''ABCDEFGHIJKLMNOPQRSTUVWXYZ0123456789'')"

definition spec_symbol_format :: "string \<Rightarrow> bool" where
  "spec_symbol_format s =
     (let a = takeWhile (\<lambda>c. c \<noteq> CHR ''-'') s;
          b = drop (Suc (length a)) s
      in a \<noteq> [] \<and> b \<noteq> [] \<and> list_all is_upper_alnum a \<and> list_all is_upper_alnum b)"

subsection \<open>What a caller can do with the objects it holds\<close>

text \<open>
  A caller that holds a reference to a dictionary can store a key (\<^verbatim>\<open>d[k] = v\<close>), remove
  one (\<^verbatim>\<open>d.pop(k, None)\<close>) and empty the dictionary (\<^verbatim>\<open>d.clear()\<close>). A caller that
  holds a reference to an order can assign its status (\<^verbatim>\<open>order.status = st\<close>).
\<close>

datatype dict_mutation = SetItem string ref | PopItem string | Clear

fun apply_mutation :: "ref \<Rightarrow> heap \<Rightarrow> dict_mutation \<Rightarrow> heap" where
  "apply_mutation d h (SetItem k v) = dict_setitem d k v h"
| "apply_mutation d h (PopItem k) = dict_popitem d k h"
| "apply_mutation d h Clear = h\<lparr>dict_objs := (dict_objs h)[d := []]\<rparr>"

definition set_status :: "ref \<Rightarrow> OrderStatus \<Rightarrow> heap \<Rightarrow> heap" where
  "set_status r st h = order_update r (\<lambda>ord. ord\<lparr>status := st\<rparr>) h"

subsection \<open>Two raw parameter maps\<close>

text \<open>
  A map whose client order id has a blank and an exclamation mark, and a map whose price
  is negative.
\<close>

definition raw_params_odd_id :: "pyval dict" where
  "raw_params_odd_id =
     [(''symbol'', PStr ''BTC-USDT''), (''quantity'', PStr ''1.5''), (''side'', PStr ''BUY''),
      (''price'', PStr ''49500''), (''leverage'', PStr ''5''),
      (''client_order_id'', PStr ''bad id!'')]"

definition raw_params_negative_price :: "pyval dict" where
  "raw_params_negative_price =
     [(''symbol'', PStr ''BTC-USDT''), (''quantity'', PStr ''1.5''), (''side'', PStr ''BUY''),
      (''price'', PStr ''-1''), (''client_order_id'', PStr ''abc123'')]"

section \<open>Properties\<close>

subsection \<open>Evaluation of the sample run\<close>

lemma new_tracker_eval:
  "new_tracker = \<lparr>active_orders = 0\<rparr>"
  "new_tracker_heap = \<lparr>order_objs = [], dict_objs = [[]]\<rparr>"
  by (simp_all add: new_tracker_def new_tracker_heap_def OrderManager_init_def dict_new_def
      empty_heap_def)

lemma example_params_client_order_id:
  "client_order_id example_params = Some ''abc123''"
  by (simp add: example_params_def)

lemma create_example_order:
  "create_order new_tracker example_params new_tracker_heap =
     (0, \<lparr>order_objs = [example_order], dict_objs = [[(''abc123'', 0)]]\<rparr>)"
  by (simp add: new_tracker_eval create_order_def Order_new_def dict_setitem_def dict_set_def
      example_params_client_order_id example_order_def)

lemma get_order_new_tracker:
  "get_order new_tracker cid h = map_of (dict_objs h ! 0) cid"
  by (simp add: get_order_def new_tracker_eval)

lemma Decimal_new_None: "Decimal_new ''None'' = Inl InvalidOperation"
  by code_simp

lemma Decimal_new_abc: "Decimal_new ''abc'' = Inl InvalidOperation"
  by code_simp

lemma update_example_order_filled:
  "update_order new_tracker ''abc123'' [(''status'', PStr ''FILLED''), (''fillQuantity'', PNone)]
     \<lparr>order_objs = [example_order], dict_objs = [[(''abc123'', 0)]]\<rparr> =
   (Some InvalidOperation,
    \<lparr>order_objs = [example_order\<lparr>status := FILLED\<rparr>], dict_objs = [[(''abc123'', 0)]]\<rparr>)"
  by (simp add: new_tracker_eval update_order_def update_from_exchange_def order_update_def
      dict_get_def dict_get_default_def dict_in_def OrderStatus_call_def Decimal_new_None
      example_order_def)

subsection \<open>A terminal order can stay registered\<close>

text \<open>
  Claim C1 says that no order of the active-order registry has a terminal status, in any
  state reached from the empty registry by \<^verbatim>\<open>create_order\<close>, \<^verbatim>\<open>update_order\<close> and
  \<^verbatim>\<open>cancel_order\<close>. \<^verbatim>\<open>update_from_exchange\<close> assigns the status before it converts
  \<^verbatim>\<open>fillQuantity\<close>. For the payload \<^verbatim>\<open>{"status": "FILLED", "fillQuantity": None}\<close> the
  conversion \<^verbatim>\<open>Decimal("None")\<close> raises \<^verbatim>\<open>decimal.InvalidOperation\<close>, the removal in
  \<^verbatim>\<open>update_order\<close> is never reached, and the order stays registered with status
  \<^verbatim>\<open>FILLED\<close>.
\<close>

theorem update_order_leaves_filled_order_registered:
  "(case create_order new_tracker example_params new_tracker_heap of
      (r, h1) \<Rightarrow>
        (case update_order new_tracker ''abc123''
                [(''status'', PStr ''FILLED''), (''fillQuantity'', PNone)] h1 of
           (e, h2) \<Rightarrow>
             e = Some InvalidOperation
             \<and> h2 = run_calls new_tracker
                      [Create example_params,
                       Update ''abc123'' [(''status'', PStr ''FILLED''), (''fillQuantity'', PNone)]]
                      new_tracker_heap
             \<and> get_order new_tracker ''abc123'' h2 = Some r
             \<and> is_terminal (status (order_objs h2 ! r))))"
  by (simp add: create_example_order update_example_order_filled run_calls_def
      get_order_new_tracker is_terminal_def)

subsection \<open>\<^verbatim>\<open>validate_symbol\<close> and a trailing line feed\<close>

text \<open>
  Claim C3 says that \<^verbatim>\<open>validate_symbol\<close> returns its argument when it consists of two
  non-empty segments of upper-case letters and digits with one hyphen between them, and
  raises the format error for every other string. The pattern ends in \<^verbatim>\<open>$\<close>, which
  also matches just before a final line feed: the nine characters of \<^verbatim>\<open>"BTC-USDT\n"\<close>
  are returned unchanged, although they are not of that format.
\<close>

theorem validate_symbol_accepts_trailing_newline:
  "validate_symbol (PStr (''BTC-USDT'' @ [CHR 0x0A])) = Inr (''BTC-USDT'' @ [CHR 0x0A])
   \<and> \<not> spec_symbol_format (''BTC-USDT'' @ [CHR 0x0A])"
  by code_simp

subsection \<open>An unparseable quantity or price\<close>

text \<open>
  Claim C4 says that an input that is no decimal number, such as \<^verbatim>\<open>"abc"\<close>, makes
  \<^verbatim>\<open>validate_quantity\<close> and \<^verbatim>\<open>validate_price\<close> raise the \<^verbatim>\<open>ValidationError\<close> for an
  invalid format. \<^verbatim>\<open>Decimal("abc")\<close> raises \<^verbatim>\<open>decimal.InvalidOperation\<close>, which the
  handler \<^verbatim>\<open>except (TypeError, ValueError)\<close> does not catch, and the caller gets
  \<^verbatim>\<open>InvalidOperation\<close>.
\<close>

theorem validate_quantity_abc_raises_InvalidOperation:
  "validate_quantity (PStr ''abc'') PNone PNone = Inl InvalidOperation
   \<and> validate_price (PStr ''abc'') PNone PNone = Inl InvalidOperation"
  by (simp add: validate_quantity_def validate_price_def Decimal_new_abc)

subsection \<open>A zero price counts as a missing price\<close>

text \<open>
  Claim C9: for a \<^verbatim>\<open>LIMIT\<close> order whose price is a zero decimal (of either sign and any
  exponent), \<^verbatim>\<open>to_dict\<close> raises the same \<^verbatim>\<open>ValueError\<close> as for a price that is
  \<^verbatim>\<open>None\<close>; likewise for the stop price of a \<^verbatim>\<open>STOP_LOSS\<close> order and the take-profit
  price of a \<^verbatim>\<open>TAKE_PROFIT\<close> order.
\<close>

theorem to_dict_zero_price_is_missing:
  "to_dict (ord\<lparr>params := (params ord)\<lparr>order_type := LIMIT, price := Some (Finite sg 0 e)\<rparr>\<rparr>)
     = Inl (ValueError ''Price is required for LIMIT orders'')
   \<and> to_dict (ord\<lparr>params := (params ord)\<lparr>order_type := LIMIT, price := None\<rparr>\<rparr>)
     = Inl (ValueError ''Price is required for LIMIT orders'')
   \<and> to_dict (ord\<lparr>params := (params ord)\<lparr>order_type := STOP_LOSS,
                                            stop_price := Some (Finite sg 0 e)\<rparr>\<rparr>)
     = Inl (ValueError ''Stop price is required for STOP_LOSS orders'')
   \<and> to_dict (ord\<lparr>params := (params ord)\<lparr>order_type := STOP_LOSS, stop_price := None\<rparr>\<rparr>)
     = Inl (ValueError ''Stop price is required for STOP_LOSS orders'')
   \<and> to_dict (ord\<lparr>params := (params ord)\<lparr>order_type := TAKE_PROFIT,
                                            take_profit_price := Some (Finite sg 0 e)\<rparr>\<rparr>)
     = Inl (ValueError ''Take profit price is required for TAKE_PROFIT orders'')
   \<and> to_dict (ord\<lparr>params := (params ord)\<lparr>order_type := TAKE_PROFIT,
                                            take_profit_price := None\<rparr>\<rparr>)
     = Inl (ValueError ''Take profit price is required for TAKE_PROFIT orders'')"
  by (simp add: to_dict_def)

subsection \<open>A failed status lookup leaves a half-applied update\<close>

lemma order_update_nth:
  "r < length (order_objs h) \<Longrightarrow> order_objs (order_update r f h) ! r = f (order_objs h ! r)"
  by (simp add: order_update_def)

lemma order_update_dicts: "dict_objs (order_update r f h) = dict_objs h"
  by (simp add: order_update_def)

lemma OrderStatus_call_error: "OrderStatus_call v = Inl e \<Longrightarrow> e = LibValueError"
  by (simp add: OrderStatus_call_def split: if_splits)

text \<open>
  Claim C8: for an order \<open>r\<close> registered under \<open>cid\<close> and a payload whose status is no
  member of \<^verbatim>\<open>OrderStatus\<close>, \<^verbatim>\<open>update_order\<close> raises the \<^verbatim>\<open>ValueError\<close> of the enum
  lookup after \<^verbatim>\<open>exchange_order_id\<close> has been overwritten with the payload's
  \<^verbatim>\<open>orderId\<close> (with \<^verbatim>\<open>None\<close> when the payload has none). The heap it leaves differs
  from the heap before only in that field of \<open>r\<close>: status, filled quantity, average fill
  price, time stamp and error message keep their values, and \<open>cid\<close> still leads to \<open>r\<close>.
\<close>

theorem update_order_unknown_status_not_atomic:
  assumes reg: "get_order m cid h = Some r"
    and valid: "r < length (order_objs h)"
    and unknown: "OrderStatus_call (dict_get_default exchange_data ''status'' (PStr ''PENDING''))
                    = Inl e"
  shows "fst (update_order m cid exchange_data h) = Some LibValueError
    \<and> snd (update_order m cid exchange_data h)
        = order_update r (\<lambda>ord. ord\<lparr>exchange_order_id := dict_get exchange_data ''orderId''\<rparr>) h
    \<and> order_objs (snd (update_order m cid exchange_data h)) ! r
        = (order_objs h ! r)\<lparr>exchange_order_id := dict_get exchange_data ''orderId''\<rparr>
    \<and> (\<not> dict_in ''orderId'' exchange_data \<longrightarrow>
         exchange_order_id (order_objs (snd (update_order m cid exchange_data h)) ! r) = PNone)
    \<and> status (order_objs (snd (update_order m cid exchange_data h)) ! r)
        = status (order_objs h ! r)
    \<and> filled_quantity (order_objs (snd (update_order m cid exchange_data h)) ! r)
        = filled_quantity (order_objs h ! r)
    \<and> average_fill_price (order_objs (snd (update_order m cid exchange_data h)) ! r)
        = average_fill_price (order_objs h ! r)
    \<and> last_update_timestamp (order_objs (snd (update_order m cid exchange_data h)) ! r)
        = last_update_timestamp (order_objs h ! r)
    \<and> error_message (order_objs (snd (update_order m cid exchange_data h)) ! r)
        = error_message (order_objs h ! r)
    \<and> get_order m cid (snd (update_order m cid exchange_data h)) = Some r"
proof -
  let ?h1 = "order_update r (\<lambda>ord. ord\<lparr>exchange_order_id :=
               dict_get exchange_data ''orderId''\<rparr>) h"
  have e: "e = LibValueError"
    using unknown by (rule OrderStatus_call_error)
  have ufe: "update_from_exchange r exchange_data h = (Some LibValueError, ?h1)"
    using unknown e by (simp add: update_from_exchange_def)
  have uo: "update_order m cid exchange_data h = (Some LibValueError, ?h1)"
    using reg ufe by (simp add: update_order_def get_order_def)
  have nth: "order_objs ?h1 ! r
      = (order_objs h ! r)\<lparr>exchange_order_id := dict_get exchange_data ''orderId''\<rparr>"
    using valid by (rule order_update_nth)
  have oid: "exchange_order_id (order_objs ?h1 ! r) = dict_get exchange_data ''orderId''"
    by (simp add: nth)
  have "\<not> dict_in ''orderId'' exchange_data \<longrightarrow> dict_get exchange_data ''orderId'' = PNone"
    by (simp add: dict_in_def dict_get_def)
  then have absent: "\<not> dict_in ''orderId'' exchange_data \<longrightarrow>
      exchange_order_id (order_objs ?h1 ! r) = PNone"
    unfolding oid .
  have still: "get_order m cid ?h1 = Some r"
    using reg by (simp add: get_order_def order_update_dicts)
  have kept: "status (order_objs ?h1 ! r) = status (order_objs h ! r)"
    "filled_quantity (order_objs ?h1 ! r) = filled_quantity (order_objs h ! r)"
    "average_fill_price (order_objs ?h1 ! r) = average_fill_price (order_objs h ! r)"
    "last_update_timestamp (order_objs ?h1 ! r) = last_update_timestamp (order_objs h ! r)"
    "error_message (order_objs ?h1 ! r) = error_message (order_objs h ! r)"
    by (simp_all add: nth)
  show ?thesis
    unfolding uo fst_conv snd_conv
    using nth absent kept still by (intro conjI) (rule refl | assumption)+
qed

theorem update_order_unknown_status_not_atomic_witness:
  "get_order new_tracker ''abc123''
      \<lparr>order_objs = [example_order], dict_objs = [[(''abc123'', 0)]]\<rparr> = Some 0
   \<and> (0::nat) < length (order_objs \<lparr>order_objs = [example_order], dict_objs = [[(''abc123'', 0)]]\<rparr>)
   \<and> OrderStatus_call (dict_get_default [(''orderId'', PStr ''X1''), (''status'', PStr ''DONE'')]
         ''status'' (PStr ''PENDING'')) = Inl LibValueError
   \<and> update_order new_tracker ''abc123'' [(''orderId'', PStr ''X1''), (''status'', PStr ''DONE'')]
        \<lparr>order_objs = [example_order], dict_objs = [[(''abc123'', 0)]]\<rparr>
      = (Some LibValueError,
         \<lparr>order_objs = [example_order\<lparr>exchange_order_id := PStr ''X1''\<rparr>],
          dict_objs = [[(''abc123'', 0)]]\<rparr>)"
proof -
  let ?h = "\<lparr>order_objs = [example_order], dict_objs = [[(''abc123'', 0)]]\<rparr>"
  let ?d = "[(''orderId'', PStr ''X1''), (''status'', PStr ''DONE'')]"
  have a: "get_order new_tracker ''abc123'' ?h = Some 0"
    by (simp add: get_order_new_tracker)
  have b: "(0::nat) < length (order_objs ?h)"
    by simp
  have c: "OrderStatus_call (dict_get_default ?d ''status'' (PStr ''PENDING'')) = Inl LibValueError"
    by (simp add: OrderStatus_call_def dict_get_default_def)
  have d: "dict_get ?d ''orderId'' = PStr ''X1''"
    by (simp add: dict_get_def)
  from update_order_unknown_status_not_atomic [OF a b c]
  have "fst (update_order new_tracker ''abc123'' ?d ?h) = Some LibValueError"
    and "snd (update_order new_tracker ''abc123'' ?d ?h)
           = order_update 0 (\<lambda>ord. ord\<lparr>exchange_order_id := dict_get ?d ''orderId''\<rparr>) ?h"
    by blast+
  then have "update_order new_tracker ''abc123'' ?d ?h
      = (Some LibValueError,
         \<lparr>order_objs = [example_order\<lparr>exchange_order_id := PStr ''X1''\<rparr>],
          dict_objs = [[(''abc123'', 0)]]\<rparr>)"
    by (simp add: prod_eq_iff order_update_def d)
  with a b c show ?thesis by blast
qed

subsection \<open>The empty client order id\<close>

lemma nth_list_update_same:
  "xs[d := v] ! d = (if d < length xs then v else xs ! d)"
  by (simp add: list_update_beyond)

lemma get_order_dict_setitem:
  "k \<noteq> cid \<Longrightarrow> get_order m cid (dict_setitem (active_orders m) k v h) = get_order m cid h"
  by (simp add: get_order_def dict_setitem_def dict_set_def update_conv' nth_list_update_same)

lemma get_order_dict_popitem_None:
  "get_order m cid h = None \<Longrightarrow> get_order m cid (dict_popitem (active_orders m) k h) = None"
  by (simp add: get_order_def dict_popitem_def dict_pop_def delete_conv' nth_list_update_same)

lemma get_order_order_update: "get_order m cid (order_update r f h) = get_order m cid h"
  by (simp add: get_order_def order_update_def)

lemma dict_objs_update_from_exchange:
  "dict_objs (snd (update_from_exchange r exchange_data h)) = dict_objs h"
  by (simp add: update_from_exchange_def order_update_def Let_def split: sum.splits if_splits)

lemma get_order_update_from_exchange:
  "get_order m cid (snd (update_from_exchange r exchange_data h)) = get_order m cid h"
  by (simp add: get_order_def dict_objs_update_from_exchange)

lemma get_order_empty_create:
  "get_order m [] h = None \<Longrightarrow> get_order m [] (snd (create_order m p h)) = None"
proof (cases "client_order_id p")
  case None
  then show "get_order m [] h = None \<Longrightarrow> ?thesis"
    by (simp add: create_order_def Order_new_def get_order_def)
next
  case (Some c)
  assume g: "get_order m [] h = None"
  show ?thesis
  proof (cases "c = []")
    case True
    with Some g show ?thesis
      by (simp add: create_order_def Order_new_def get_order_def)
  next
    case False
    then have "get_order m []
        (dict_setitem (active_orders m) c (length (order_objs h)) (snd (Order_new p h))) = None"
      using g by (simp add: get_order_dict_setitem) (simp add: get_order_def Order_new_def)
    with Some False show ?thesis
      by (simp add: create_order_def Order_new_def)
  qed
qed

lemma get_order_empty_update:
  "get_order m [] h = None \<Longrightarrow> get_order m [] (snd (update_order m cid exchange_data h)) = None"
proof -
  assume g: "get_order m [] h = None"
  show ?thesis
  proof (cases "map_of (dict_objs h ! active_orders m) cid")
    case None
    with g show ?thesis by (simp add: update_order_def)
  next
    case (Some r)
    obtain e h1 where u: "update_from_exchange r exchange_data h = (e, h1)"
      by (cases "update_from_exchange r exchange_data h")
    then have "h1 = snd (update_from_exchange r exchange_data h)" by simp
    then have g1: "get_order m [] h1 = None"
      using g by (simp add: get_order_update_from_exchange)
    then have "get_order m [] (dict_popitem (active_orders m) cid h1) = None"
      by (rule get_order_dict_popitem_None)
    with Some u g1 show ?thesis
      by (cases e) (simp_all add: update_order_def)
  qed
qed

lemma get_order_empty_cancel:
  "get_order m [] h = None \<Longrightarrow> get_order m [] (cancel_order m cid h) = None"
  by (simp add: cancel_order_def get_order_dict_popitem_None get_order_order_update
      split: option.splits)

lemma get_order_empty_run_call:
  "get_order m [] h = None \<Longrightarrow> get_order m [] (run_call m h c) = None"
  by (cases c)
     (simp_all add: get_order_empty_create get_order_empty_update get_order_empty_cancel)

lemma get_order_empty_run_calls:
  "get_order m [] h = None \<Longrightarrow> get_order m [] (run_calls m calls h) = None"
  unfolding run_calls_def
  by (induction calls arbitrary: h) (simp_all add: get_order_empty_run_call)

lemma get_order_empty_new_tracker: "get_order new_tracker [] new_tracker_heap = None"
  by (simp add: get_order_new_tracker new_tracker_eval(2))

lemma to_dict_no_clientOrderId:
  "\<not> truthy_str (client_order_id (params ord)) \<Longrightarrow> to_dict ord = Inr body
     \<Longrightarrow> map_of body ''clientOrderId'' = None"
  by (auto simp add: to_dict_def Let_def dict_set_def update_conv' split: if_splits)


lemma str_nat_examples: "str_nat 15 = ''15''" "str_nat 49500 = ''49500''"
  by (simp_all add: str_nat.simps digit_char_def)

lemma str_Decimal_examples:
  "str_Decimal (Finite False 15 (- 1)) = ''1.5''"
  "str_Decimal (Finite False 49500 0) = ''49500''"
  by (simp_all add: str_Decimal_def str_nat_examples sign_str_def)

text \<open>
  Claim C10: for parameters whose client order id is the empty string, \<^verbatim>\<open>create_order\<close>
  on a tracker reached from a new one by any calls constructs and returns a
  \<^verbatim>\<open>PENDING\<close> order and leaves the registry as it was, exactly as for parameters without
  a client order id; \<^verbatim>\<open>get_order("")\<close> then finds nothing; and \<^verbatim>\<open>to_dict\<close> on the
  order gives what it gives without a client order id, a body without the key
  \<^verbatim>\<open>clientOrderId\<close>.
\<close>

theorem create_order_empty_client_order_id:
  assumes empty: "client_order_id p = Some []"
    and reached: "h = run_calls new_tracker calls new_tracker_heap"
    and created: "create_order new_tracker p h = (r, h')"
  shows "r = length (order_objs h)
    \<and> order_objs h' = order_objs h @
          [\<lparr>params = p, status = PENDING, exchange_order_id = PNone,
            filled_quantity = Finite False 0 0, average_fill_price = None,
            last_update_timestamp = PNone, error_message = PNone\<rparr>]
    \<and> dict_objs h' = dict_objs h
    \<and> dict_objs (snd (create_order new_tracker (p\<lparr>client_order_id := None\<rparr>) h)) = dict_objs h'
    \<and> get_order new_tracker [] h' = None
    \<and> to_dict (order_objs h' ! r)
        = to_dict ((order_objs h' ! r)\<lparr>params := p\<lparr>client_order_id := None\<rparr>\<rparr>)
    \<and> (\<forall>body. to_dict (order_objs h' ! r) = Inr body \<longrightarrow> map_of body ''clientOrderId'' = None)"
proof -
  let ?ord = "\<lparr>params = p, status = PENDING, exchange_order_id = PNone,
               filled_quantity = Finite False 0 0, average_fill_price = None,
               last_update_timestamp = PNone, error_message = PNone\<rparr>"
  have r: "r = length (order_objs h)" and h': "h' = h\<lparr>order_objs := order_objs h @ [?ord]\<rparr>"
    using created empty by (simp_all add: create_order_def Order_new_def)
  have objs: "order_objs h' = order_objs h @ [?ord]" and dicts: "dict_objs h' = dict_objs h"
    by (simp_all add: h')
  have absent: "dict_objs (snd (create_order new_tracker (p\<lparr>client_order_id := None\<rparr>) h))
      = dict_objs h'"
    by (simp add: create_order_def Order_new_def dicts)
  have nth: "order_objs h' ! r = ?ord"
    by (simp add: objs r)
  have "get_order new_tracker [] h = None"
    unfolding reached using get_order_empty_new_tracker by (rule get_order_empty_run_calls)
  then have lookup: "get_order new_tracker [] h' = None"
    by (simp add: get_order_def dicts)
  have same: "to_dict (order_objs h' ! r)
      = to_dict ((order_objs h' ! r)\<lparr>params := p\<lparr>client_order_id := None\<rparr>\<rparr>)"
    by (simp add: nth to_dict_def empty Let_def)
  have nokey: "\<forall>body. to_dict (order_objs h' ! r) = Inr body
      \<longrightarrow> map_of body ''clientOrderId'' = None"
    using to_dict_no_clientOrderId [of "order_objs h' ! r"] by (simp add: nth empty)
  from r objs dicts absent lookup same nokey show ?thesis
    by (intro conjI)
qed

theorem create_order_empty_client_order_id_witness:
  "client_order_id (example_params\<lparr>client_order_id := Some []\<rparr>) = Some []
   \<and> create_order new_tracker (example_params\<lparr>client_order_id := Some []\<rparr>)
        (run_calls new_tracker [Create example_params] new_tracker_heap)
      = (1, \<lparr>order_objs = [example_order,
                example_order\<lparr>params := example_params\<lparr>client_order_id := Some []\<rparr>\<rparr>],
             dict_objs = [[(''abc123'', 0)]]\<rparr>)
   \<and> get_order new_tracker []
        \<lparr>order_objs = [example_order,
             example_order\<lparr>params := example_params\<lparr>client_order_id := Some []\<rparr>\<rparr>],
          dict_objs = [[(''abc123'', 0)]]\<rparr> = None
   \<and> to_dict (example_order\<lparr>params := example_params\<lparr>client_order_id := Some []\<rparr>\<rparr>)
      = Inr [(''symbol'', PStr ''BTC-USDT''), (''side'', PStr ''BUY''),
             (''orderType'', PStr ''LIMIT''), (''quantity'', PStr ''1.5''),
             (''leverage'', PInt 1), (''timeInForce'', PStr ''GTC''),
             (''reduceOnly'', PBool False), (''price'', PStr ''49500'')]"
proof -
  let ?p = "example_params\<lparr>client_order_id := Some []\<rparr>"
  let ?h = "run_calls new_tracker [Create example_params] new_tracker_heap"
  let ?h' = "\<lparr>order_objs = [example_order, example_order\<lparr>params := ?p\<rparr>],
             dict_objs = [[(''abc123'', 0)]]\<rparr>"
  have a: "client_order_id ?p = Some []"
    by simp
  have h: "?h = \<lparr>order_objs = [example_order], dict_objs = [[(''abc123'', 0)]]\<rparr>"
    by (simp add: run_calls_def create_example_order)
  have c: "create_order new_tracker ?p ?h = (1, ?h')"
    by (simp add: h create_order_def Order_new_def example_order_def)
  have d: "to_dict (example_order\<lparr>params := ?p\<rparr>)
      = Inr [(''symbol'', PStr ''BTC-USDT''), (''side'', PStr ''BUY''),
             (''orderType'', PStr ''LIMIT''), (''quantity'', PStr ''1.5''),
             (''leverage'', PInt 1), (''timeInForce'', PStr ''GTC''),
             (''reduceOnly'', PBool False), (''price'', PStr ''49500'')]"
    by (simp add: to_dict_def example_order_def example_params_def dict_set_def
        str_Decimal_examples)
  from create_order_empty_client_order_id [OF a refl c]
  have "get_order new_tracker [] ?h' = None" by blast
  with a c d show ?thesis by simp
qed

subsection \<open>The snapshot of the registry\<close>

lemma apply_mutation_frame:
  "order_objs (apply_mutation d h mu) = order_objs h
   \<and> length (dict_objs (apply_mutation d h mu)) = length (dict_objs h)
   \<and> (a \<noteq> d \<longrightarrow> dict_objs (apply_mutation d h mu) ! a = dict_objs h ! a)"
  by (cases mu) (simp_all add: dict_setitem_def dict_popitem_def)

lemma apply_mutations_frame:
  "order_objs (foldl (apply_mutation d) h muts) = order_objs h
   \<and> length (dict_objs (foldl (apply_mutation d) h muts)) = length (dict_objs h)
   \<and> (a \<noteq> d \<longrightarrow> dict_objs (foldl (apply_mutation d) h muts) ! a = dict_objs h ! a)"
proof (induction muts arbitrary: h)
  case Nil
  show ?case by simp
next
  case (Cons mu muts)
  show ?case
    using Cons.IH [of "apply_mutation d h mu"] apply_mutation_frame [of d h mu a]
    by simp
qed

text \<open>
  Claim C7, as far as it holds: \<^verbatim>\<open>get_active_orders\<close> returns a new dictionary that is
  equal to the registry, and whatever keys the caller stores in it, removes from it, or
  clears, the registry, every order object and every later \<^verbatim>\<open>get_order\<close> are as before.
\<close>

theorem get_active_orders_snapshot_of_map:
  assumes valid: "active_orders m < length (dict_objs h)"
    and snap: "get_active_orders m h = (d, h1)"
  shows "dict_objs h1 ! d = dict_objs h ! active_orders m
    \<and> d \<noteq> active_orders m
    \<and> order_objs h1 = order_objs h
    \<and> dict_objs (foldl (apply_mutation d) h1 muts) ! active_orders m
        = dict_objs h ! active_orders m
    \<and> order_objs (foldl (apply_mutation d) h1 muts) = order_objs h
    \<and> get_order m cid (foldl (apply_mutation d) h1 muts) = get_order m cid h"
proof -
  have d: "d = length (dict_objs h)"
    and h1: "h1 = h\<lparr>dict_objs := dict_objs h @ [dict_objs h ! active_orders m]\<rparr>"
    using snap by (simp_all add: get_active_orders_def dict_new_def)
  have copy: "dict_objs h1 ! d = dict_objs h ! active_orders m"
    by (simp add: d h1)
  have fresh: "d \<noteq> active_orders m"
    using valid by (simp add: d)
  then have other: "active_orders m \<noteq> d"
    by simp
  have objs1: "order_objs h1 = order_objs h"
    by (simp add: h1)
  have reg1: "dict_objs h1 ! active_orders m = dict_objs h ! active_orders m"
    using valid by (simp add: h1 nth_append)
  have reg: "dict_objs (foldl (apply_mutation d) h1 muts) ! active_orders m
      = dict_objs h ! active_orders m"
    using apply_mutations_frame [of d h1 muts "active_orders m"] other reg1 by simp
  have objs: "order_objs (foldl (apply_mutation d) h1 muts) = order_objs h"
    using apply_mutations_frame [of d h1 muts "active_orders m"] objs1 by simp
  have look: "get_order m cid (foldl (apply_mutation d) h1 muts) = get_order m cid h"
    by (simp add: get_order_def reg)
  from copy fresh objs1 reg objs look show ?thesis
    by (intro conjI)
qed

theorem get_active_orders_snapshot_of_map_witness:
  "active_orders new_tracker
     < length (dict_objs \<lparr>order_objs = [example_order], dict_objs = [[(''abc123'', 0)]]\<rparr>)
   \<and> get_active_orders new_tracker
        \<lparr>order_objs = [example_order], dict_objs = [[(''abc123'', 0)]]\<rparr>
      = (1, \<lparr>order_objs = [example_order],
             dict_objs = [[(''abc123'', 0)], [(''abc123'', 0)]]\<rparr>)
   \<and> foldl (apply_mutation 1)
        \<lparr>order_objs = [example_order], dict_objs = [[(''abc123'', 0)], [(''abc123'', 0)]]\<rparr>
        [SetItem ''zzz'' 0, PopItem ''abc123'']
      = \<lparr>order_objs = [example_order], dict_objs = [[(''abc123'', 0)], [(''zzz'', 0)]]\<rparr>
   \<and> get_order new_tracker ''abc123''
        (foldl (apply_mutation 1)
           \<lparr>order_objs = [example_order], dict_objs = [[(''abc123'', 0)], [(''abc123'', 0)]]\<rparr>
           [SetItem ''zzz'' 0, PopItem ''abc123''])
      = Some 0"
proof -
  let ?h = "\<lparr>order_objs = [example_order], dict_objs = [[(''abc123'', 0)]]\<rparr>"
  let ?h1 = "\<lparr>order_objs = [example_order],
              dict_objs = [[(''abc123'', 0)], [(''abc123'', 0)]]\<rparr>"
  have a: "active_orders new_tracker < length (dict_objs ?h)"
    by (simp add: new_tracker_eval)
  have b: "get_active_orders new_tracker ?h = (1, ?h1)"
    by (simp add: get_active_orders_def dict_new_def new_tracker_eval)
  have c: "foldl (apply_mutation 1) ?h1 [SetItem ''zzz'' 0, PopItem ''abc123'']
      = \<lparr>order_objs = [example_order], dict_objs = [[(''abc123'', 0)], [(''zzz'', 0)]]\<rparr>"
    by (simp add: dict_setitem_def dict_popitem_def dict_set_def dict_pop_def)
  have "get_order new_tracker ''abc123''
          (foldl (apply_mutation 1) ?h1 [SetItem ''zzz'' 0, PopItem ''abc123''])
        = get_order new_tracker ''abc123'' ?h"
    using get_active_orders_snapshot_of_map [OF a b] by blast
  then have e: "get_order new_tracker ''abc123''
          (foldl (apply_mutation 1) ?h1 [SetItem ''zzz'' 0, PopItem ''abc123'']) = Some 0"
    by (simp add: get_order_new_tracker)
  from a b c e show ?thesis by (intro conjI)
qed

text \<open>
  Claim C7 also says that no change to the contents of the returned dictionary is seen by
  the tracker. The copy is shallow: the returned dictionary holds the registered order
  objects themselves. After \<^verbatim>\<open>get_active_orders()["abc123"].status = FILLED\<close> the order
  that \<^verbatim>\<open>get_order("abc123")\<close> returns has the status \<^verbatim>\<open>FILLED\<close>.
\<close>

theorem get_active_orders_shares_orders:
  "get_active_orders new_tracker
       \<lparr>order_objs = [example_order], dict_objs = [[(''abc123'', 0)]]\<rparr>
     = (1, \<lparr>order_objs = [example_order],
            dict_objs = [[(''abc123'', 0)], [(''abc123'', 0)]]\<rparr>)
   \<and> map_of (dict_objs \<lparr>order_objs = [example_order],
                          dict_objs = [[(''abc123'', 0)], [(''abc123'', 0)]]\<rparr> ! 1) ''abc123''
     = Some 0
   \<and> get_order new_tracker ''abc123''
        \<lparr>order_objs = [example_order], dict_objs = [[(''abc123'', 0)], [(''abc123'', 0)]]\<rparr>
     = Some 0
   \<and> status (order_objs \<lparr>order_objs = [example_order],
                           dict_objs = [[(''abc123'', 0)], [(''abc123'', 0)]]\<rparr> ! 0)
     = PENDING
   \<and> get_order new_tracker ''abc123''
        (set_status 0 FILLED
           \<lparr>order_objs = [example_order],
            dict_objs = [[(''abc123'', 0)], [(''abc123'', 0)]]\<rparr>)
     = Some 0
   \<and> status (order_objs
        (set_status 0 FILLED
           \<lparr>order_objs = [example_order],
            dict_objs = [[(''abc123'', 0)], [(''abc123'', 0)]]\<rparr>) ! 0)
     = FILLED"
  by (simp add: get_active_orders_def dict_new_def new_tracker_eval get_order_def
      set_status_def order_update_def example_order_def)

end
